theory Spec2Isabelle
  imports Complex_Main "HOL-Library.Word"
begin

section \<open>Python values and exceptions used by \<^verbatim>\<open>train/util.py\<close>\<close>

text \<open>
  The exceptions that the modelled functions can raise. A function that can raise returns
  \<open>error + 'a\<close>, with \<open>Inl\<close> for the exception.
\<close>

datatype error =
    ZeroDivisionError
  | NameError
  | IOError
  | StructError
  | DataIntegrityError
  | ValueError
  | IndexError

definition bind :: "error + 'a \<Rightarrow> ('a \<Rightarrow> error + 'b) \<Rightarrow> error + 'b" where
  "bind m f = (case m of Inl e \<Rightarrow> Inl e | Inr v \<Rightarrow> f v)"

text \<open>
  Python's \<^verbatim>\<open>a and b\<close> and \<^verbatim>\<open>a or b\<close> on booleans whose evaluation may raise: the
  right operand is evaluated only when the left one does not decide the result.
\<close>

definition py_and :: "error + bool \<Rightarrow> error + bool \<Rightarrow> error + bool" where
  "py_and a b = (case a of Inl e \<Rightarrow> Inl e | Inr p \<Rightarrow> (if p then b else Inr False))"

definition py_or :: "error + bool \<Rightarrow> error + bool \<Rightarrow> error + bool" where
  "py_or a b = (case a of Inl e \<Rightarrow> Inl e | Inr p \<Rightarrow> (if p then Inr True else b))"

text \<open>
  Integer \<^verbatim>\<open>//\<close> and \<^verbatim>\<open>%\<close>: floor division, the remainder has the sign of the divisor
  (as \<open>div\<close> and \<open>mod\<close> on \<open>int\<close>), and a zero divisor raises.
\<close>

definition py_floordiv :: "int \<Rightarrow> int \<Rightarrow> error + int" where
  "py_floordiv a b = (if b = 0 then Inl ZeroDivisionError else Inr (a div b))"

definition py_mod :: "int \<Rightarrow> int \<Rightarrow> error + int" where
  "py_mod a b = (if b = 0 then Inl ZeroDivisionError else Inr (a mod b))"

text \<open>\<^verbatim>\<open>a % b != 0\<close>\<close>

definition mod_nonzero :: "int \<Rightarrow> int \<Rightarrow> error + bool" where
  "mod_nonzero a b = bind (py_mod a b) (\<lambda>r. Inr (r \<noteq> 0))"

subsection \<open>\<^verbatim>\<open>str\<close> of the values passed as suffixes and lattice tags\<close>

definition digit_char :: "nat \<Rightarrow> char" where
  "digit_char d = ''0123456789'' ! d"

fun str_nat :: "nat \<Rightarrow> string" where
  "str_nat n = (if n < 10 then [digit_char n] else str_nat (n div 10) @ [digit_char (n mod 10)])"

declare str_nat.simps [simp del]

definition str_int :: "int \<Rightarrow> string" where
  "str_int i = (if i < 0 then CHR ''-'' # str_nat (nat (- i)) else str_nat (nat i))"

datatype pyval = PyNone | PyInt int | PyStr string

fun py_str :: "pyval \<Rightarrow> string" where
  "py_str PyNone = ''None''"
| "py_str (PyInt i) = str_int i"
| "py_str (PyStr s) = s"

section \<open>Lattice adjacency\<close>

text \<open>
  \<^verbatim>\<open>is_lattice_connection(sqrt, i, j, lattice_structure)\<close>. The result is \<open>Some b\<close> for a
  returned boolean and \<open>None\<close> for the \<^verbatim>\<open>None\<close> that Python returns when no \<^verbatim>\<open>if\<close> matches.
  \<^verbatim>\<open>and\<close> binds tighter than \<^verbatim>\<open>or\<close>, and the disjuncts are evaluated from left to right.
\<close>

definition lattice4 :: "int \<Rightarrow> int \<Rightarrow> int \<Rightarrow> error + bool" where
  "lattice4 sqrt' i j =
     py_or (py_and (Inr (i + 1 = j)) (mod_nonzero j sqrt'))
    (py_or (py_and (Inr (i - 1 = j)) (mod_nonzero i sqrt'))
    (py_or (Inr (i + sqrt' = j))
           (Inr (i - sqrt' = j))))"

definition lattice8 :: "int \<Rightarrow> int \<Rightarrow> int \<Rightarrow> error + bool" where
  "lattice8 sqrt' i j =
     py_or (py_and (Inr (i + 1 = j)) (mod_nonzero j sqrt'))
    (py_or (py_and (Inr (i - 1 = j)) (mod_nonzero i sqrt'))
    (py_or (Inr (i + sqrt' = j))
    (py_or (Inr (i - sqrt' = j))
    (py_or (py_and (Inr (i + sqrt' = j + 1)) (mod_nonzero j sqrt'))
    (py_or (py_and (Inr (i + sqrt' = j - 1)) (mod_nonzero i sqrt'))
    (py_or (py_and (Inr (i - sqrt' = j + 1)) (mod_nonzero i sqrt'))
           (py_and (Inr (i - sqrt' = j - 1)) (mod_nonzero j sqrt'))))))))"

definition is_lattice_connection :: "int \<Rightarrow> int \<Rightarrow> int \<Rightarrow> string \<Rightarrow> error + bool option" where
  "is_lattice_connection sqrt' i j lattice_structure =
     (if lattice_structure = ''none'' then Inr (Some False)
      else if lattice_structure = ''4'' then bind (lattice4 sqrt' i j) (\<lambda>b. Inr (Some b))
      else if lattice_structure = ''8'' then bind (lattice8 sqrt' i j) (\<lambda>b. Inr (Some b))
      else if lattice_structure = ''all'' then Inr (Some True)
      else Inr None)"

text \<open>
  The eight candidates of \<^verbatim>\<open>get_neighbors\<close> and \<^verbatim>\<open>get_mesh_neighbors\<close>, in the order of
  the source.
\<close>

definition candidates :: "int \<Rightarrow> int \<Rightarrow> (int \<times> int) list" where
  "candidates i j =
     [(i + 1, j), (i - 1, j), (i, j + 1), (i, j - 1),
      (i + 1, j + 1), (i + 1, j - 1), (i - 1, j + 1), (i - 1, j - 1)]"

text \<open>
  The condition of the loop body: \<^verbatim>\<open>is_lattice_connection(...) and i_ * sqrt + j_ >= 0 and
  i_ * sqrt + j_ < sqrt ** 2\<close>. A returned \<^verbatim>\<open>None\<close> is falsy.
\<close>

definition keep_candidate :: "int \<Rightarrow> int \<Rightarrow> int \<Rightarrow> string \<Rightarrow> int \<times> int \<Rightarrow> error + bool" where
  "keep_candidate sqrt' i j lattice c =
     (case c of (i', j') \<Rightarrow>
        bind (is_lattice_connection sqrt' (i * sqrt' + j) (i' * sqrt' + j') lattice)
          (\<lambda>r. Inr ((r = Some True) \<and> i' * sqrt' + j' \<ge> 0 \<and> i' * sqrt' + j' < sqrt' ^ 2)))"

text \<open>The \<^verbatim>\<open>for\<close> loop that appends the kept candidates to \<^verbatim>\<open>neighbors\<close>.\<close>

fun append_kept :: "int \<Rightarrow> int \<Rightarrow> int \<Rightarrow> string \<Rightarrow> (int \<times> int) list \<Rightarrow> int list \<Rightarrow> error + int list" where
  "append_kept sqrt' i j lattice [] neighbors = Inr neighbors"
| "append_kept sqrt' i j lattice (c # cs) neighbors =
     bind (keep_candidate sqrt' i j lattice c)
       (\<lambda>k. append_kept sqrt' i j lattice cs
               (if k then neighbors @ [fst c * sqrt' + snd c] else neighbors))"

definition get_neighbors :: "int \<Rightarrow> int \<Rightarrow> error + int list" where
  "get_neighbors n sqrt' =
     bind (py_floordiv n sqrt') (\<lambda>i.
     bind (py_mod n sqrt') (\<lambda>j.
       append_kept sqrt' i j ''8'' (candidates i j) []))"

definition get_mesh_neighbors :: "int \<Rightarrow> int \<Rightarrow> pyval \<Rightarrow> error + int list" where
  "get_mesh_neighbors n sqrt' lattice =
     bind (py_floordiv n sqrt') (\<lambda>i.
     bind (py_mod n sqrt') (\<lambda>j.
       append_kept sqrt' i j (py_str lattice) (candidates i j) []))"

section \<open>The wavelet kernel\<close>

text \<open>
  \<^verbatim>\<open>mhat(t, sigma, scale, shift, max_excite, max_inhib)\<close> at one sample point, for float
  arguments. The float64 arithmetic of numpy is modelled by exact real arithmetic, so the
  model says what the formula computes where no rounding, overflow or NaN is involved (a
  \<^verbatim>\<open>sigma\<close> that is not positive gives NaN or a division by zero in numpy); the bounds are
  finite reals (the defaults \<^verbatim>\<open>np.inf\<close> and \<^verbatim>\<open>-np.inf\<close> are not values of the model).
  \<^verbatim>\<open>np.minimum\<close> and \<^verbatim>\<open>np.maximum\<close> are \<open>min\<close> and \<open>max\<close>, and the leading minus sign of the
  returned expression applies to the clamped value.
\<close>

definition mhat :: "real \<Rightarrow> real \<Rightarrow> real \<Rightarrow> real \<Rightarrow> real \<Rightarrow> real \<Rightarrow> real" where
  "mhat t sigma scale shift max_excite max_inhib =
     - max (min (scale * (2 / (sqrt (3 * sigma) * (pi powr 0.25)))
                   * (1.0 - (t / sigma)\<^sup>2)
                   * exp (- (t\<^sup>2 / (2 * sigma\<^sup>2))) + shift)
                max_excite)
           max_inhib"

section \<open>Paths\<close>

text \<open>
  \<^verbatim>\<open>os.path.join(a, p)\<close> on POSIX paths, and the file name \<^verbatim>\<open>np.save\<close> writes to: the extension
  \<^verbatim>\<open>.npy\<close> is appended unless the name already ends with it.
\<close>

definition os_path_join :: "string \<Rightarrow> string \<Rightarrow> string" where
  "os_path_join a p =
     (if take 1 p = ''/'' then p
      else if a = [] \<or> last a = CHR ''/'' then a @ p
      else a @ ''/'' @ p)"

definition ends_with :: "string \<Rightarrow> string \<Rightarrow> bool" where
  "ends_with s suffix = (length suffix \<le> length s \<and> drop (length s - length suffix) s = suffix)"

definition npy_file :: "string \<Rightarrow> string" where
  "npy_file file = (if ends_with file ''.npy'' then file else file @ ''.npy'')"

section \<open>The dataset loader\<close>

subsection \<open>Cache file name\<close>

text \<open>\<^verbatim>\<open>sep.join(parts)\<close> on strings.\<close>

fun str_join :: "string \<Rightarrow> string list \<Rightarrow> string" where
  "str_join sep [] = []"
| "str_join sep [s] = s"
| "str_join sep (s # t # ts) = s @ sep @ str_join sep (t # ts)"

text \<open>
  The first statement of \<^verbatim>\<open>get_labeled_data\<close>: the name under which the result is cached,
  without the extension \<^verbatim>\<open>.pickle\<close>. The second branch is an \<^verbatim>\<open>elif\<close>: it is not reached when
  \<^verbatim>\<open>reduced_dataset\<close> is set.
\<close>

definition cache_name :: "string \<Rightarrow> bool \<Rightarrow> int list \<Rightarrow> int \<Rightarrow> bool \<Rightarrow> string" where
  "cache_name pickle_name reduced_dataset classes examples_per_class normalized_inputs =
     (if reduced_dataset then
        str_join ''_'' [pickle_name, ''reduced'', str_join ''_'' (map str_int classes),
                        str_int examples_per_class]
      else if normalized_inputs then str_join ''_'' [pickle_name, ''normalized_inputs'']
      else pickle_name)"

subsection \<open>Files and the MNIST format\<close>

type_synonym byte = "8 word"

text \<open>An image is a list of \<^verbatim>\<open>rows\<close> rows of \<^verbatim>\<open>cols\<close> pixels.\<close>

type_synonym image = "byte list list"

text \<open>
  The array \<^verbatim>\<open>x\<close> of a bundle has dtype \<^verbatim>\<open>uint8\<close>, or \<^verbatim>\<open>float64\<close> after normalization. A float
  is modelled by a real number, with \<open>None\<close> for NaN; rounding is not modelled.
\<close>

datatype pixels = U8 "image list" | F64 "real option list list list"

text \<open>
  The dictionary \<^verbatim>\<open>{'x': x, 'y': y, 'rows': rows, 'cols': cols}\<close>. The array \<^verbatim>\<open>y\<close> has shape
  (N, 1) and is kept as the list of its N entries.
\<close>

record dataset =
  data_x :: pixels
  data_y :: "byte list"
  data_rows :: nat
  data_cols :: nat

text \<open>
  The part of the world the loader touches: the cache files (files with extension
  \<^verbatim>\<open>.pickle\<close>, each holding a pickled bundle), the other files with their bytes, and the state
  of numpy's global random generator. Memory is unbounded and what is printed is left out.
\<close>

record 's world =
  pickles :: "string \<rightharpoonup> dataset"
  raw_files :: "string \<rightharpoonup> byte list"
  rng :: 's

definition MNIST_data_path :: string where
  "MNIST_data_path = os_path_join (os_path_join ''..'' ''..'') ''data''"

text \<open>An open file is the list of the bytes not yet read; \<^verbatim>\<open>f.read(n)\<close> returns at most n bytes.\<close>

definition file_read :: "nat \<Rightarrow> byte list \<Rightarrow> byte list \<times> byte list" where
  "file_read n f = (take n f, drop n f)"

definition be_uint :: "byte list \<Rightarrow> nat" where
  "be_uint s = foldl (\<lambda>acc b. acc * 256 + unat b) 0 s"

text \<open>\<^verbatim>\<open>unpack('>I', s)[0]\<close> and \<^verbatim>\<open>unpack('>B', s)[0]\<close>: a string of the wrong length raises.\<close>

definition unpack_I :: "byte list \<Rightarrow> error + nat" where
  "unpack_I s = (if length s = 4 then Inr (be_uint s) else Inl StructError)"

definition unpack_B :: "byte list \<Rightarrow> error + byte" where
  "unpack_B s = (if length s = 1 then Inr (hd s) else Inl StructError)"

text \<open>
  The two metadata blocks: the magic numbers are skipped, then the image count, the rows and
  the columns are read from the image file and the label count from the label file. The
  result holds the four numbers and the two files after their headers.
\<close>

definition read_metadata ::
  "byte list \<Rightarrow> byte list \<Rightarrow> error + (nat \<times> nat \<times> nat \<times> nat \<times> byte list \<times> byte list)" where
  "read_metadata images labels =
     (let images1 = snd (file_read 4 images);
          (s1, images2) = file_read 4 images1;
          (s2, images3) = file_read 4 images2;
          (s3, images4) = file_read 4 images3
      in bind (unpack_I s1) (\<lambda>number_of_images.
         bind (unpack_I s2) (\<lambda>rows.
         bind (unpack_I s3) (\<lambda>cols.
           (let labels1 = snd (file_read 4 labels);
                (s4, labels2) = file_read 4 labels1
            in bind (unpack_I s4) (\<lambda>N.
                 Inr (number_of_images, rows, cols, N, images4, labels2)))))))"

text \<open>One row of an image: \<^verbatim>\<open>[unpack('>B', images.read(1))[0] for unused_col in xrange(cols)]\<close>.\<close>

fun read_row :: "nat \<Rightarrow> byte list \<Rightarrow> error + (byte list \<times> byte list)" where
  "read_row 0 images = Inr ([], images)"
| "read_row (Suc c) images =
     (case file_read 1 images of (s, images') \<Rightarrow>
        bind (unpack_B s) (\<lambda>v.
        bind (read_row c images') (\<lambda>(vs, images''). Inr (v # vs, images''))))"

fun read_image :: "nat \<Rightarrow> nat \<Rightarrow> byte list \<Rightarrow> error + (image \<times> byte list)" where
  "read_image 0 cols images = Inr ([], images)"
| "read_image (Suc r) cols images =
     bind (read_row cols images) (\<lambda>(row, images').
     bind (read_image r cols images') (\<lambda>(rs, images''). Inr (row # rs, images'')))"

text \<open>
  The assignment \<^verbatim>\<open>x[i] = ...\<close> of a nested list to a slot of shape (rows, cols): the list has
  that shape, except that with no rows it is the empty list, of shape (0,), which numpy
  broadcasts into the shape (0, cols) only when \<^verbatim>\<open>cols\<close> is 0.
\<close>

definition assign_image :: "nat \<Rightarrow> nat \<Rightarrow> image \<Rightarrow> error + image" where
  "assign_image rows cols img = (if rows = 0 \<and> cols \<noteq> 0 then Inl ValueError else Inr img)"

text \<open>The loop \<^verbatim>\<open>for i in xrange(N)\<close> that fills \<^verbatim>\<open>x\<close> and \<^verbatim>\<open>y\<close>.\<close>

fun read_examples ::
  "nat \<Rightarrow> nat \<Rightarrow> nat \<Rightarrow> byte list \<Rightarrow> byte list \<Rightarrow> error + (image list \<times> byte list)" where
  "read_examples 0 rows cols images labels = Inr ([], [])"
| "read_examples (Suc k) rows cols images labels =
     bind (read_image rows cols images) (\<lambda>(img, images').
     bind (assign_image rows cols img) (\<lambda>xi.
       (case file_read 1 labels of (s, labels') \<Rightarrow>
          bind (unpack_B s) (\<lambda>yi.
          bind (read_examples k rows cols images' labels') (\<lambda>(xs, ys).
            Inr (xi # xs, yi # ys))))))"

text \<open>
  The cache-miss path up to the loaded arrays: metadata, the comparison of the two counts,
  and the examples.
\<close>

definition load_mnist :: "byte list \<Rightarrow> byte list \<Rightarrow> error + (image list \<times> byte list \<times> nat \<times> nat)" where
  "load_mnist images labels =
     bind (read_metadata images labels) (\<lambda>(number_of_images, rows, cols, N, images', labels').
       if number_of_images \<noteq> N then Inl DataIntegrityError
       else bind (read_examples N rows cols images' labels') (\<lambda>(x, y). Inr (x, y, rows, cols)))"

subsection \<open>Reduced dataset\<close>

text \<open>\<^verbatim>\<open>np.zeros((n, rows, cols), dtype=np.uint8)\<close>: a negative dimension raises.\<close>

definition np_zeros_images :: "int \<Rightarrow> nat \<Rightarrow> nat \<Rightarrow> error + image list" where
  "np_zeros_images n rows cols =
     (if n < 0 then Inl ValueError else Inr (replicate (nat n) (replicate rows (replicate cols 0))))"

text \<open>
  \<^verbatim>\<open>reduced_x[current, :, :] = img\<close>: an index from \<^verbatim>\<open>-len\<close> to \<^verbatim>\<open>len - 1\<close> is valid, a negative one
  counts from the end.
\<close>

definition set_image :: "image list \<Rightarrow> int \<Rightarrow> image \<Rightarrow> error + image list" where
  "set_image reduced_x current img =
     (let n = int (length reduced_x) in
      if 0 \<le> current \<and> current < n then Inr (reduced_x [nat current := img])
      else if - n \<le> current \<and> current < 0 then Inr (reduced_x [nat (n + current) := img])
      else Inl IndexError)"

text \<open>
  The inner loop over the examples for one class: an example whose label equals
  \<^verbatim>\<open>class_index\<close> is copied to the slot \<^verbatim>\<open>current\<close>, and the loop breaks when \<^verbatim>\<open>current\<close> reaches
  \<open>stop\<close>, which is \<^verbatim>\<open>examples_per_class * (idx + 1)\<close>.
\<close>

fun scan_examples ::
  "int \<Rightarrow> int \<Rightarrow> (image \<times> byte) list \<Rightarrow> int \<Rightarrow> image list \<Rightarrow> error + image list" where
  "scan_examples class_index stop [] current reduced_x = Inr reduced_x"
| "scan_examples class_index stop ((example, label) # rest) current reduced_x =
     (if uint label = class_index then
        bind (set_image reduced_x current example) (\<lambda>reduced_x'.
          if current + 1 = stop then Inr reduced_x'
          else scan_examples class_index stop rest (current + 1) reduced_x')
      else scan_examples class_index stop rest current reduced_x)"

text \<open>The outer loop \<^verbatim>\<open>for idx, class_index in enumerate(classes)\<close>.\<close>

fun fill_classes ::
  "int \<Rightarrow> (image \<times> byte) list \<Rightarrow> (nat \<times> int) list \<Rightarrow> image list \<Rightarrow> error + image list" where
  "fill_classes examples_per_class examples [] reduced_x = Inr reduced_x"
| "fill_classes examples_per_class examples ((idx, class_index) # rest) reduced_x =
     bind (scan_examples class_index (examples_per_class * (int idx + 1)) examples
             (examples_per_class * int idx) reduced_x)
       (fill_classes examples_per_class examples rest)"

text \<open>
  The list comprehension \<^verbatim>\<open>[label // examples_per_class for label in xrange(...)]\<close> and its
  conversion to an array of dtype \<^verbatim>\<open>uint8\<close>, which keeps the low eight bits of each entry.
\<close>

fun label_quotients :: "int \<Rightarrow> int list \<Rightarrow> error + int list" where
  "label_quotients examples_per_class [] = Inr []"
| "label_quotients examples_per_class (label # rest) =
     bind (py_floordiv label examples_per_class) (\<lambda>q.
     bind (label_quotients examples_per_class rest) (\<lambda>qs. Inr (q # qs)))"

definition synthesize_labels :: "int \<Rightarrow> int list \<Rightarrow> error + byte list" where
  "synthesize_labels examples_per_class classes =
     bind (label_quotients examples_per_class [0 .. examples_per_class * int (length classes) - 1])
       (\<lambda>qs. Inr (map word_of_int qs))"

text \<open>
  The reduced-dataset block up to, and without, the shuffling: the arrays \<^verbatim>\<open>reduced_x\<close> and
  \<^verbatim>\<open>reduced_y\<close>.
\<close>

definition reduce_dataset ::
  "image list \<Rightarrow> byte list \<Rightarrow> nat \<Rightarrow> nat \<Rightarrow> int list \<Rightarrow> int \<Rightarrow> error + (image list \<times> byte list)" where
  "reduce_dataset x y rows cols classes examples_per_class =
     bind (np_zeros_images (examples_per_class * int (length classes)) rows cols) (\<lambda>zeros.
     bind (fill_classes examples_per_class (zip x y) (zip [0 ..< length classes] classes) zeros)
       (\<lambda>reduced_x.
     bind (synthesize_labels examples_per_class classes) (\<lambda>reduced_y.
       Inr (reduced_x, reduced_y))))"

subsection \<open>Shuffling and normalization\<close>

text \<open>
  \<^verbatim>\<open>np.random.shuffle\<close> permutes an array along its first axis; the permutation depends on the
  generator state and on the length only. It is a parameter of the model: \<open>shuffle s n\<close> is the
  permutation applied to an array of length \<open>n\<close> from state \<open>s\<close> (entry \<open>k\<close> of the result is
  the index the new entry \<open>k\<close> comes from), with the state left behind.
\<close>

definition permute :: "nat list \<Rightarrow> 'a list \<Rightarrow> 'a list" where
  "permute p xs = map (\<lambda>k. xs ! k) p"

text \<open>
  The state is saved, \<^verbatim>\<open>reduced_x\<close> is shuffled, the state is restored and \<^verbatim>\<open>reduced_y\<close> is
  shuffled.
\<close>

definition shuffle_both ::
  "('s \<Rightarrow> nat \<Rightarrow> nat list \<times> 's) \<Rightarrow> 's \<Rightarrow> image list \<Rightarrow> byte list \<Rightarrow> (image list \<times> byte list) \<times> 's" where
  "shuffle_both shuffle s reduced_x reduced_y =
     (let rng_state = s;
          (p1, s1) = shuffle s (length reduced_x);
          (p2, s2) = shuffle rng_state (length reduced_y)
      in ((permute p1 reduced_x, permute p2 reduced_y), s2))"

definition pixel_sum :: "byte list \<Rightarrow> real" where
  "pixel_sum ps = sum_list (map (\<lambda>p. real (unat p)) ps)"

text \<open>
  Each image is flattened, scaled by \<^verbatim>\<open>x_mean / np.sum(x[i, :])\<close> and reshaped. An image whose
  pixels sum to 0 is all zeros; numpy divides by zero without raising and every pixel of
  that image becomes NaN.
\<close>

definition normalize_image :: "real \<Rightarrow> image \<Rightarrow> real option list list" where
  "normalize_image x_mean img =
     (let s = pixel_sum (concat img) in
      map (map (\<lambda>p. if s = 0 then None else Some (real (unat p) * (x_mean / s)))) img)"

definition normalize_images :: "image list \<Rightarrow> real option list list list" where
  "normalize_images x =
     (let x_mean = pixel_sum (concat (concat x)) / real (length x)
      in map (normalize_image x_mean) x)"

subsection \<open>\<^verbatim>\<open>get_labeled_data\<close>\<close>

definition images_path :: "bool \<Rightarrow> string" where
  "images_path train =
     os_path_join MNIST_data_path (if train then ''train-images-idx3-ubyte'' else ''t10k-images-idx3-ubyte'')"

definition labels_path :: "bool \<Rightarrow> string" where
  "labels_path train =
     os_path_join MNIST_data_path (if train then ''train-labels-idx1-ubyte'' else ''t10k-labels-idx1-ubyte'')"

text \<open>\<^verbatim>\<open>open(path, 'rb')\<close> of a file that does not exist raises.\<close>

definition open_rb :: "'s world \<Rightarrow> string \<Rightarrow> error + byte list" where
  "open_rb w path = (case raw_files w path of None \<Rightarrow> Inl IOError | Some bytes \<Rightarrow> Inr bytes)"

text \<open>
  What a cache miss computes: the bundle and the generator state left behind. No file is
  written here.
\<close>

definition compute_data ::
  "('s \<Rightarrow> nat \<Rightarrow> nat list \<times> 's) \<Rightarrow> 's world \<Rightarrow> bool \<Rightarrow> bool \<Rightarrow> int list \<Rightarrow> int \<Rightarrow> bool
     \<Rightarrow> error + (dataset \<times> 's)" where
  "compute_data shuffle w train reduced_dataset classes examples_per_class normalized_inputs =
     bind (open_rb w (images_path train)) (\<lambda>images.
     bind (open_rb w (labels_path train)) (\<lambda>labels.
     bind (load_mnist images labels) (\<lambda>(x, y, rows, cols).
     bind (if reduced_dataset then
             bind (reduce_dataset x y rows cols classes examples_per_class) (\<lambda>(reduced_x, reduced_y).
               Inr (shuffle_both shuffle (rng w) reduced_x reduced_y))
           else Inr ((x, y), rng w)) (\<lambda>((x', y'), s).
       Inr (\<lparr> data_x = (if normalized_inputs then F64 (normalize_images x') else U8 x'),
              data_y = y', data_rows = rows, data_cols = cols \<rparr>, s)))))"

text \<open>
  \<^verbatim>\<open>get_labeled_data\<close>: the returned bundle or the exception raised, and the world after the
  call. A cached bundle is returned as it is; a computed one is written to the cache file.
\<close>

definition get_labeled_data ::
  "('s \<Rightarrow> nat \<Rightarrow> nat list \<times> 's) \<Rightarrow> 's world \<Rightarrow> string \<Rightarrow> bool \<Rightarrow> bool \<Rightarrow> int list \<Rightarrow> int \<Rightarrow> bool
     \<Rightarrow> (error + dataset) \<times> 's world" where
  "get_labeled_data shuffle w pickle_name train reduced_dataset classes examples_per_class
       normalized_inputs =
     (let file = cache_name pickle_name reduced_dataset classes examples_per_class
                   normalized_inputs @ ''.pickle''
      in case pickles w file of
           Some data \<Rightarrow> (Inr data, w)
         | None \<Rightarrow>
             (case compute_data shuffle w train reduced_dataset classes examples_per_class
                     normalized_inputs of
                Inl e \<Rightarrow> (Inl e, w)
              | Inr (data, s) \<Rightarrow>
                  (Inr data, w \<lparr> pickles := (pickles w) (file \<mapsto> data), rng := s \<rparr>)))"

subsection \<open>A small fixture\<close>

text \<open>
  An image file with two 2x2 images and a label file, each given its count field: a world
  with an empty cache, these two files as the training set, and a generator that shuffles
  nothing.
\<close>

definition fixture_images :: "nat \<Rightarrow> byte list" where
  "fixture_images count =
     [0, 0, 8, 3] @ [0, 0, 0, word_of_nat count] @ [0, 0, 0, 2] @ [0, 0, 0, 2]
       @ [1, 2, 3, 4] @ [5, 6, 7, 8]"

definition fixture_labels :: "nat \<Rightarrow> byte list" where
  "fixture_labels count = [0, 0, 8, 1] @ [0, 0, 0, word_of_nat count] @ [7, 3]"

definition fixture_world :: "nat \<Rightarrow> nat \<Rightarrow> unit world" where
  "fixture_world image_count label_count =
     \<lparr> pickles = Map.empty,
       raw_files = [images_path True \<mapsto> fixture_images image_count,
                    labels_path True \<mapsto> fixture_labels label_count],
       rng = () \<rparr>"

definition no_shuffle :: "unit \<Rightarrow> nat \<Rightarrow> nat list \<times> unit" where
  "no_shuffle s n = ([0 ..< n], s)"

section \<open>Persistence helpers\<close>

text \<open>
  The saving functions act on the files on disk, a map from path to the array stored there;
  directories are not modelled, a write always succeeds. \<^verbatim>\<open>ending\<close> is a string and \<^verbatim>\<open>suffix\<close>
  any value \<^verbatim>\<open>str\<close> accepts.

  \<^verbatim>\<open>save_assignments(weights_dir, assignments, ending, suffix)\<close> saves its parameter.
\<close>

definition save_assignments ::
  "(string \<rightharpoonup> 'a) \<Rightarrow> string \<Rightarrow> 'a \<Rightarrow> string \<Rightarrow> pyval \<Rightarrow> error + (string \<rightharpoonup> 'a)" where
  "save_assignments files weights_dir assignments ending suffix =
     Inr (files (npy_file (os_path_join weights_dir
                    (str_join ''_'' [''assignments'', ending, py_str suffix])) \<mapsto> assignments))"

text \<open>
  \<^verbatim>\<open>save_accumulated_rates(weights_dir, accumulated_rates, ending, suffix)\<close>. The second argument
  of \<^verbatim>\<open>np.save\<close> is the name \<^verbatim>\<open>assignments\<close>, which is not a parameter or local of the function:
  Python looks it up among the globals of the module (\<open>globals\<close>, a map from names to values)
  and raises \<^verbatim>\<open>NameError\<close> when it is not bound. The module itself binds no such name.
\<close>

definition save_accumulated_rates ::
  "(string \<rightharpoonup> 'a) \<Rightarrow> (string \<rightharpoonup> 'a) \<Rightarrow> string \<Rightarrow> 'a \<Rightarrow> string \<Rightarrow> pyval \<Rightarrow> error + (string \<rightharpoonup> 'a)" where
  "save_accumulated_rates globals files weights_dir accumulated_rates ending suffix =
     (case globals ''assignments'' of
        None \<Rightarrow> Inl NameError
      | Some assignments \<Rightarrow>
          Inr (files (npy_file (os_path_join weights_dir
                         (str_join ''_'' [''accumulated_rates'', ending, py_str suffix])) \<mapsto> assignments)))"


section \<open>Properties of \<^verbatim>\<open>str\<close> on integers\<close>

lemma digit_cases: "d < 10 \<Longrightarrow> d \<in> {0,1,2,3,4,5,6,7,8,9::nat}"
  by auto

lemma digit_char_in: "d < 10 \<Longrightarrow> digit_char d \<in> set ''0123456789''"
  using digit_cases [of d] by (auto simp: digit_char_def)

lemma digit_char_inj: "d < 10 \<Longrightarrow> e < 10 \<Longrightarrow> digit_char d = digit_char e \<Longrightarrow> d = e"
  using digit_cases [of d] digit_cases [of e] by (auto simp: digit_char_def)

lemma str_nat_digits: "set (str_nat n) \<subseteq> set ''0123456789''"
proof (induction n rule: str_nat.induct)
  case (1 n)
  show ?case
  proof (cases "n < 10")
    case True
    then show ?thesis using digit_char_in [of n] by (subst str_nat.simps) simp
  next
    case False
    have "n mod 10 < 10" by simp
    from digit_char_in [OF this] 1 [OF False] False show ?thesis
      by (subst str_nat.simps) simp
  qed
qed

lemma str_nat_nonempty: "str_nat n \<noteq> []"
  by (subst str_nat.simps) simp

lemma str_nat_inj: "str_nat m = str_nat n \<Longrightarrow> m = n"
proof (induction m arbitrary: n rule: str_nat.induct)
  case (1 m)
  show ?case
  proof (cases "m < 10")
    case m: True
    show ?thesis
    proof (cases "n < 10")
      case True
      with m 1(2) show ?thesis
        by (simp add: str_nat.simps [of m] str_nat.simps [of n] digit_char_inj)
    next
      case False
      with m 1(2) str_nat_nonempty [of "n div 10"] show ?thesis
        by (simp add: str_nat.simps [of m] str_nat.simps [of n])
    qed
  next
    case m: False
    show ?thesis
    proof (cases "n < 10")
      case True
      with m 1(2) str_nat_nonempty [of "m div 10"] show ?thesis
        by (simp add: str_nat.simps [of m] str_nat.simps [of n])
    next
      case False
      with m 1(2) have e: "str_nat (m div 10) = str_nat (n div 10)"
        and d: "digit_char (m mod 10) = digit_char (n mod 10)"
        by (simp_all add: str_nat.simps [of m] str_nat.simps [of n])
      from 1(1) [OF m e] have "m div 10 = n div 10" .
      moreover from d have "m mod 10 = n mod 10"
        by (intro digit_char_inj) simp_all
      ultimately show ?thesis
        by (metis div_mult_mod_eq)
    qed
  qed
qed

lemma str_int_nonempty: "str_int i \<noteq> []"
  by (simp add: str_int_def str_nat_nonempty)

lemma str_int_no_sep: "CHR ''_'' \<notin> set (str_int i)"
  using str_nat_digits [of "nat i"] str_nat_digits [of "nat (- i)"]
  by (auto simp: str_int_def)

lemma str_nat_hd: "hd (str_nat n) \<noteq> CHR ''-''"
proof -
  have "hd (str_nat n) \<in> set (str_nat n)" by (simp add: str_nat_nonempty)
  with str_nat_digits [of n] show ?thesis by auto
qed

lemma str_int_inj: "str_int i = str_int j \<Longrightarrow> i = j"
proof -
  assume a: "str_int i = str_int j"
  show ?thesis
  proof (cases "i < 0"; cases "j < 0")
    assume "i < 0" "j < 0"
    with a have "nat (- i) = nat (- j)" by (simp add: str_int_def str_nat_inj)
    with \<open>i < 0\<close> \<open>j < 0\<close> show ?thesis by simp
  next
    assume "i < 0" "\<not> j < 0"
    with a have "CHR ''-'' # str_nat (nat (- i)) = str_nat (nat j)" by (simp add: str_int_def)
    then have "hd (str_nat (nat j)) = CHR ''-''" by (metis list.sel(1))
    with str_nat_hd show ?thesis by blast
  next
    assume "\<not> i < 0" "j < 0"
    with a have "CHR ''-'' # str_nat (nat (- j)) = str_nat (nat i)" by (simp add: str_int_def)
    then have "hd (str_nat (nat i)) = CHR ''-''" by (metis list.sel(1))
    with str_nat_hd show ?thesis by blast
  next
    assume "\<not> i < 0" "\<not> j < 0"
    with a have "nat i = nat j" by (simp add: str_int_def str_nat_inj)
    with \<open>\<not> i < 0\<close> \<open>\<not> j < 0\<close> show ?thesis by simp
  qed
qed
section \<open>Properties of the lattice adjacency\<close>

lemma lattice8_4_6: "is_lattice_connection 3 4 6 ''8'' = Inr (Some False)"
  by (simp add: is_lattice_connection_def lattice8_def py_or_def py_and_def mod_nonzero_def
      py_mod_def bind_def)

lemma lattice8_6_4: "is_lattice_connection 3 6 4 ''8'' = Inr (Some True)"
  by (simp add: is_lattice_connection_def lattice8_def py_or_def py_and_def mod_nonzero_def
      py_mod_def bind_def)

text \<open>
  C2. On the 3x3 grid the centre cell 4 has the eight surrounding cells 0, 1, 2, 3, 5, 6, 7, 8.
  \<^verbatim>\<open>get_neighbors(4, 3)\<close> returns seven of them, in candidate order: cell 6 (one row down, one
  column left) is missing, because the disjunct \<^verbatim>\<open>i + sqrt == j + 1\<close> is guarded by
  \<^verbatim>\<open>j % sqrt != 0\<close>, which is false for a target in the left column.
\<close>

theorem get_neighbors_4_3: "get_neighbors 4 3 = Inr [7, 1, 5, 3, 8, 2, 0]"
  by (simp add: get_neighbors_def candidates_def keep_candidate_def is_lattice_connection_def
      lattice8_def py_or_def py_and_def mod_nonzero_def py_mod_def py_floordiv_def bind_def)

text \<open>
  C10. When the \<^verbatim>\<open>lattice\<close> argument stringifies to \<^verbatim>\<open>'8'\<close>, \<^verbatim>\<open>get_mesh_neighbors\<close> returns the
  list that \<^verbatim>\<open>get_neighbors\<close> returns: same elements, same order (and the same exception
  where one is raised).
\<close>

theorem get_mesh_neighbors_8:
  assumes "1 \<le> sqrt'" and "py_str lattice = ''8''"
  shows "get_mesh_neighbors n sqrt' lattice = get_neighbors n sqrt'"
  using assms by (simp add: get_mesh_neighbors_def get_neighbors_def)

theorem get_mesh_neighbors_8_witness:
  "(1::int) \<le> 3 \<and> py_str (PyInt 8) = ''8'' \<and> get_mesh_neighbors 4 3 (PyInt 8) = get_neighbors 4 3"
proof -
  have s: "py_str (PyInt 8) = ''8''"
    by (simp add: str_int_def str_nat.simps digit_char_def)
  have "(1::int) \<le> 3" by simp
  from get_mesh_neighbors_8 [OF this s, of 4] s show ?thesis by simp
qed

section \<open>Properties of the wavelet kernel\<close>

text \<open>At \<^verbatim>\<open>t = sigma\<close> the wavelet term vanishes and only the shift is clamped.\<close>

lemma mhat_at_sigma:
  "sigma \<noteq> 0 \<Longrightarrow> mhat sigma sigma scale shift max_excite max_inhib = - max (min shift max_excite) max_inhib"
  by (simp add: mhat_def)




section \<open>Properties of the cache file name\<close>

text \<open>A string is split in one way only at the first, or at the last, occurrence of a character.\<close>

lemma split_first:
  "c \<notin> set a \<Longrightarrow> c \<notin> set a' \<Longrightarrow> a @ c # b = a' @ c # b' \<Longrightarrow> a = a' \<and> b = b'"
proof (induction a arbitrary: a')
  case Nil
  then show ?case by (cases a') auto
next
  case (Cons x xs)
  then show ?case by (cases a') auto
qed

lemma split_last:
  assumes "c \<notin> set b" "c \<notin> set b'" "a @ c # b = a' @ c # b'"
  shows "a = a' \<and> b = b'"
proof -
  from assms(3) have "rev (a @ c # b) = rev (a' @ c # b')" by simp
  then have "rev b @ c # rev a = rev b' @ c # rev a'" by simp
  with assms(1,2) split_first [of c "rev b" "rev b'" "rev a" "rev a'"] show ?thesis by simp
qed

lemma str_join_Cons:
  "str_join sep (s # ss) = s @ (if ss = [] then [] else sep @ str_join sep ss)"
  by (cases ss) simp_all

lemma str_join_classes_inj:
  "str_join ''_'' (map str_int cs) = str_join ''_'' (map str_int ds) \<Longrightarrow> cs = ds"
proof (induction cs arbitrary: ds)
  case Nil
  then show ?case
    by (cases ds) (simp_all add: str_join_Cons str_int_nonempty)
next
  case (Cons c cs)
  show ?case
  proof (cases ds)
    case Nil
    with Cons.prems show ?thesis by (simp add: str_join_Cons str_int_nonempty)
  next
    case ds: (Cons d ds')
    let ?J = "\<lambda>xs. str_join ''_'' (map str_int xs)"
    from Cons.prems ds
    have eq: "str_join ''_'' (str_int c # map str_int cs) = str_join ''_'' (str_int d # map str_int ds')"
      by simp
    consider (a) "cs = []" "ds' = []" | (b) "cs = []" "ds' \<noteq> []"
      | (c) "cs \<noteq> []" "ds' = []" | (d) "cs \<noteq> []" "ds' \<noteq> []" by blast
    then show ?thesis
    proof cases
      case a
      with eq ds show ?thesis by (simp add: str_int_inj)
    next
      case b
      with eq have "str_int c = str_int d @ CHR ''_'' # ?J ds'" by (simp add: str_join_Cons)
      then have "CHR ''_'' \<in> set (str_int c)" by simp
      with str_int_no_sep show ?thesis by blast
    next
      case c
      with eq have "str_int d = str_int c @ CHR ''_'' # ?J cs" by (simp add: str_join_Cons)
      then have "CHR ''_'' \<in> set (str_int d)" by simp
      with str_int_no_sep show ?thesis by blast
    next
      case d
      with eq have "str_int c @ CHR ''_'' # ?J cs = str_int d @ CHR ''_'' # ?J ds'"
        by (simp add: str_join_Cons)
      from split_first [OF str_int_no_sep str_int_no_sep this]
      have "str_int c = str_int d" and "?J cs = ?J ds'" by simp_all
      with Cons.IH [of ds'] ds show ?thesis by (simp add: str_int_inj)
    qed
  qed
qed

lemma cache_name_reduced:
  "cache_name p True cs e n = p @ ''_reduced_'' @ str_join ''_'' (map str_int cs) @ CHR ''_'' # str_int e"
  by (simp add: cache_name_def)

lemma cache_name_plain:
  "cache_name p False cs e n = (if n then p @ ''_normalized_inputs'' else p)"
  by (simp add: cache_name_def)

text \<open>
  Equal cache names have equal active options: the flag \<^verbatim>\<open>reduced_dataset\<close>, then the class list
  and the per-class count when it is set, and \<^verbatim>\<open>normalized_inputs\<close> when it is not.
\<close>

lemma cache_name_active_options:
  assumes "cache_name pickle_name r cs e n = cache_name pickle_name r' cs' e' n'"
  shows "r = r' \<and> (if r then cs = cs' \<and> e = e' else n = n')"
proof (cases r; cases r')
  assume r: "r" "r'"
  with assms have "str_join ''_'' (map str_int cs) @ CHR ''_'' # str_int e
      = str_join ''_'' (map str_int cs') @ CHR ''_'' # str_int e'"
    by (simp add: cache_name_reduced)
  from split_last [OF str_int_no_sep str_int_no_sep this] r show ?thesis
    by (simp add: str_join_classes_inj str_int_inj)
next
  assume r: "r" "\<not> r'"
  with assms show ?thesis by (simp add: cache_name_reduced cache_name_plain split: if_splits)
next
  assume r: "\<not> r" "r'"
  with assms show ?thesis by (simp add: cache_name_reduced cache_name_plain split: if_splits)
next
  assume r: "\<not> r" "\<not> r'"
  with assms show ?thesis by (simp add: cache_name_plain split: if_splits)
qed

text \<open>
  With \<^verbatim>\<open>reduced_dataset\<close> set, the \<^verbatim>\<open>elif\<close> is not reached and \<^verbatim>\<open>normalized_inputs\<close> does not enter
  the name.
\<close>

lemma cache_name_reduced_ignores_normalized:
  "cache_name pickle_name True cs e True = cache_name pickle_name True cs e False"
  by (simp add: cache_name_def)

text \<open>
  C3, as stated: two calls with the same base name and different values of the options
  (\<^verbatim>\<open>reduced_dataset\<close>, \<^verbatim>\<open>classes\<close>, \<^verbatim>\<open>examples_per_class\<close>, \<^verbatim>\<open>normalized_inputs\<close>) get different
  cache names. This fails: without \<^verbatim>\<open>reduced_dataset\<close> the class list is not part of the name.
\<close>

theorem cache_name_collision:
  "([0, 1] :: int list) \<noteq> [2, 3]
   \<and> cache_name ''mnist'' False [0, 1] 100 False = cache_name ''mnist'' False [2, 3] 100 False"
  by (simp add: cache_name_def)

text \<open>
  C3, amended: two calls with the same base name get different cache names whenever their
  active options differ, that is, when they differ in \<^verbatim>\<open>reduced_dataset\<close>, or both set it and
  differ in \<^verbatim>\<open>classes\<close> or \<^verbatim>\<open>examples_per_class\<close>, or neither sets it and they differ in
  \<^verbatim>\<open>normalized_inputs\<close>.
\<close>

theorem cache_name_distinct:
  assumes "r \<noteq> r' \<or> (r \<and> r' \<and> (cs \<noteq> cs' \<or> e \<noteq> e')) \<or> (\<not> r \<and> \<not> r' \<and> n \<noteq> n')"
  shows "cache_name pickle_name r cs e n \<noteq> cache_name pickle_name r' cs' e' n'"
proof
  assume "cache_name pickle_name r cs e n = cache_name pickle_name r' cs' e' n'"
  from cache_name_active_options [OF this] assms show False
    by (auto split: if_splits)
qed

theorem cache_name_distinct_witness:
  "([0, 1] :: int list) \<noteq> [0, 2]
   \<and> cache_name ''mnist'' True [0, 1] 100 False \<noteq> cache_name ''mnist'' True [0, 2] 100 False"
proof -
  have "([0, 1] :: int list) \<noteq> [0, 2]" by simp
  then have "True \<noteq> True \<or> (True \<and> True \<and> (([0, 1] :: int list) \<noteq> [0, 2] \<or> (100::int) \<noteq> 100))
      \<or> (\<not> True \<and> \<not> True \<and> False \<noteq> False)" by simp
  from cache_name_distinct [OF this] show ?thesis by simp
qed

section \<open>Properties of the persistence helpers\<close>

text \<open>
  C4. \<^verbatim>\<open>save_accumulated_rates\<close> serializes the value bound to the name \<^verbatim>\<open>assignments\<close>, not its
  parameter \<^verbatim>\<open>accumulated_rates\<close>: the outcome of a call is the same for any two values of the
  parameter; when \<^verbatim>\<open>assignments\<close> is bound to \<open>v\<close>, the file written holds \<open>v\<close>; when it is
  not bound, the call raises \<^verbatim>\<open>NameError\<close> and writes nothing.
\<close>

theorem save_accumulated_rates_writes_assignments:
  "save_accumulated_rates globals files weights_dir accumulated_rates ending suffix
     = save_accumulated_rates globals files weights_dir accumulated_rates' ending suffix
   \<and> (globals ''assignments'' = Some v \<longrightarrow>
        save_accumulated_rates globals files weights_dir accumulated_rates ending suffix
          = Inr (files (npy_file (os_path_join weights_dir
                          (str_join ''_'' [''accumulated_rates'', ending, py_str suffix])) \<mapsto> v)))
   \<and> (globals ''assignments'' = None \<longrightarrow>
        save_accumulated_rates globals files weights_dir accumulated_rates ending suffix
          = Inl NameError)"
  by (simp add: save_accumulated_rates_def)

theorem save_accumulated_rates_writes_assignments_witness:
  "[''assignments'' \<mapsto> (7::nat)] ''assignments'' = Some 7
   \<and> save_accumulated_rates [''assignments'' \<mapsto> (7::nat)] Map.empty ''weights'' 5 ''ending'' (PyInt 3)
       = Inr [''weights/accumulated_rates_ending_3.npy'' \<mapsto> 7]"
proof -
  have p: "npy_file (os_path_join ''weights''
             (str_join ''_'' [''accumulated_rates'', ''ending'', py_str (PyInt 3)]))
           = ''weights/accumulated_rates_ending_3.npy''"
    by (simp add: npy_file_def os_path_join_def ends_with_def str_int_def str_nat.simps
        digit_char_def)
  have g: "[''assignments'' \<mapsto> (7::nat)] ''assignments'' = Some 7" by simp
  from save_accumulated_rates_writes_assignments
    [of "[''assignments'' \<mapsto> (7::nat)]" Map.empty "''weights''" 5 "''ending''" "PyInt 3" 5 7]
    g p
  show ?thesis by simp
qed

section \<open>Properties of the dataset loader\<close>

subsection \<open>Where the data-integrity error comes from\<close>

lemma bind_Inl_iff:
  "bind m f = Inl e \<longleftrightarrow> m = Inl e \<or> (\<exists>v. m = Inr v \<and> f v = Inl e)"
  by (cases m) (simp_all add: bind_def)

lemma bind_Inr [simp]: "bind (Inr v) f = f v"
  by (simp add: bind_def)

lemma bind_Inl [simp]: "bind (Inl e) f = Inl e"
  by (simp add: bind_def)

lemma unpack_B_no_integrity: "unpack_B s \<noteq> Inl DataIntegrityError"
  by (simp add: unpack_B_def)

lemma read_row_no_integrity: "read_row c images \<noteq> Inl DataIntegrityError"
proof (induction c arbitrary: images)
  case 0
  show ?case by simp
next
  case (Suc c)
  show ?case
    using Suc.IH unpack_B_no_integrity
    by (auto simp: bind_Inl_iff file_read_def split: prod.splits)
qed

lemma read_image_no_integrity: "read_image r cols images \<noteq> Inl DataIntegrityError"
proof (induction r arbitrary: images)
  case 0
  show ?case by simp
next
  case (Suc r)
  show ?case
    using Suc.IH read_row_no_integrity
    by (auto simp: bind_Inl_iff split: prod.splits)
qed

lemma read_examples_no_integrity:
  "read_examples k rows cols images labels \<noteq> Inl DataIntegrityError"
proof (induction k arbitrary: images labels)
  case 0
  show ?case by simp
next
  case (Suc k)
  show ?case
    using Suc.IH read_image_no_integrity unpack_B_no_integrity
    by (auto simp: bind_Inl_iff file_read_def assign_image_def split: prod.splits if_splits)
qed

lemma set_image_no_integrity: "set_image reduced_x current img \<noteq> Inl DataIntegrityError"
  by (simp add: set_image_def Let_def)

lemma scan_examples_no_integrity:
  "scan_examples class_index stop examples current reduced_x \<noteq> Inl DataIntegrityError"
proof (induction class_index stop examples current reduced_x rule: scan_examples.induct)
  case (1 class_index stop current reduced_x)
  show ?case by simp
next
  case (2 class_index stop example label rest current reduced_x)
  then show ?case
    using set_image_no_integrity
    by (auto simp: bind_Inl_iff split: if_splits)
qed

lemma fill_classes_no_integrity:
  "fill_classes epc examples cs reduced_x \<noteq> Inl DataIntegrityError"
proof (induction cs arbitrary: reduced_x)
  case Nil
  show ?case by simp
next
  case (Cons c cs)
  obtain idx class_index where c: "c = (idx, class_index)" by (cases c)
  show ?case
    using Cons.IH scan_examples_no_integrity
    by (auto simp: c bind_Inl_iff)
qed

lemma label_quotients_no_integrity: "label_quotients epc ls \<noteq> Inl DataIntegrityError"
  by (induction ls) (auto simp: bind_Inl_iff py_floordiv_def)

lemma synthesize_labels_no_integrity: "synthesize_labels epc classes \<noteq> Inl DataIntegrityError"
  using label_quotients_no_integrity by (auto simp: synthesize_labels_def bind_Inl_iff)

lemma reduce_dataset_no_integrity:
  "reduce_dataset x y rows cols classes epc \<noteq> Inl DataIntegrityError"
  using fill_classes_no_integrity synthesize_labels_no_integrity
  by (auto simp: reduce_dataset_def bind_Inl_iff np_zeros_images_def)

lemma read_metadata_ok:
  assumes "16 \<le> length images" "8 \<le> length labels"
  shows "read_metadata images labels =
     Inr (be_uint (take 4 (drop 4 images)), be_uint (take 4 (drop 8 images)),
          be_uint (take 4 (drop 12 images)), be_uint (take 4 (drop 4 labels)),
          drop 16 images, drop 8 labels)"
  using assms by (simp add: read_metadata_def file_read_def unpack_I_def Let_def)

lemma read_metadata_no_integrity: "read_metadata images labels \<noteq> Inl DataIntegrityError"
  by (auto simp: read_metadata_def file_read_def unpack_I_def Let_def bind_Inl_iff split: prod.splits if_splits)

lemma read_metadata_Inr:
  assumes "read_metadata images labels = Inr m"
  shows "16 \<le> length images \<and> 8 \<le> length labels"
  using assms
  by (auto simp: read_metadata_def file_read_def unpack_I_def Let_def bind_def split: prod.splits if_splits sum.splits)


lemma load_mnist_integrity_iff:
  "load_mnist images labels = Inl DataIntegrityError \<longleftrightarrow>
     16 \<le> length images \<and> 8 \<le> length labels
     \<and> be_uint (take 4 (drop 4 images)) \<noteq> be_uint (take 4 (drop 4 labels))"
proof (cases "16 \<le> length images \<and> 8 \<le> length labels")
  case True
  then show ?thesis
    using read_examples_no_integrity
    by (auto simp: load_mnist_def read_metadata_ok bind_Inl_iff split: prod.splits)
next
  case False
  have "read_metadata images labels \<noteq> Inr m" for m
    using False read_metadata_Inr by blast
  with False read_metadata_no_integrity show ?thesis
    by (auto simp: load_mnist_def bind_Inl_iff)
qed

lemma compute_data_integrity_iff:
  "compute_data shuffle w train reduced_dataset classes epc normalized_inputs = Inl DataIntegrityError
   \<longleftrightarrow> (\<exists>images labels. raw_files w (images_path train) = Some images
          \<and> raw_files w (labels_path train) = Some labels
          \<and> load_mnist images labels = Inl DataIntegrityError)"
  using reduce_dataset_no_integrity
  by (auto simp: compute_data_def open_rb_def bind_Inl_iff split: option.splits prod.splits if_splits)

lemma get_labeled_data_error_world:
  "fst (get_labeled_data shuffle w pickle_name train reduced_dataset classes epc normalized_inputs) = Inl e
   \<Longrightarrow> snd (get_labeled_data shuffle w pickle_name train reduced_dataset classes epc normalized_inputs) = w"
  by (auto simp: get_labeled_data_def Let_def split: option.splits sum.splits prod.splits)

lemma get_labeled_data_miss:
  assumes "pickles w (cache_name pickle_name reduced_dataset classes epc normalized_inputs @ ''.pickle'') = None"
  shows "fst (get_labeled_data shuffle w pickle_name train reduced_dataset classes epc normalized_inputs) = Inl e
     \<longleftrightarrow> compute_data shuffle w train reduced_dataset classes epc normalized_inputs = Inl e"
  using assms by (auto simp: get_labeled_data_def Let_def split: sum.splits prod.splits)


subsection \<open>The fixture\<close>

lemma paths:
  "images_path True = ''../../data/train-images-idx3-ubyte''"
  "labels_path True = ''../../data/train-labels-idx1-ubyte''"
  by (simp_all add: images_path_def labels_path_def MNIST_data_path_def os_path_join_def)

lemma fixture_files:
  "raw_files (fixture_world a b) (images_path True) = Some (fixture_images a)"
  "raw_files (fixture_world a b) (labels_path True) = Some (fixture_labels b)"
  by (simp_all add: fixture_world_def paths)

lemma fixture_counts:
  "be_uint (take 4 (drop 4 (fixture_images 2))) = 2"
  "be_uint (take 4 (drop 4 (fixture_labels 1))) = 1"
  "be_uint (take 4 (drop 4 (fixture_labels 2))) = 2"
  by (simp_all add: fixture_images_def fixture_labels_def be_uint_def)

lemma fixture_loaded:
  "fst (get_labeled_data no_shuffle (fixture_world 2 2) ''mnist'' True False [] 100 False)
     = Inr \<lparr> data_x = U8 [[[1, 2], [3, 4]], [[5, 6], [7, 8]]], data_y = [7, 3],
             data_rows = 2, data_cols = 2 \<rparr>"
  by code_simp

subsection \<open>Count mismatch\<close>

text \<open>
  C7. On a cache miss, with both MNIST files present and long enough to hold their headers
  (16 and 8 bytes), \<^verbatim>\<open>get_labeled_data\<close> raises the data-integrity error if and only if the
  big-endian image count (bytes 4 to 7 of the image file) differs from the big-endian label
  count (bytes 4 to 7 of the label file); in that case no bundle is returned and the world,
  with its cache files, is left as it was.
\<close>

theorem count_mismatch_raises:
  assumes miss: "pickles w (cache_name pickle_name reduced_dataset classes examples_per_class
                     normalized_inputs @ ''.pickle'') = None"
    and images: "raw_files w (images_path train) = Some images"
    and labels: "raw_files w (labels_path train) = Some labels"
    and headers: "16 \<le> length images" "8 \<le> length labels"
  shows "(fst (get_labeled_data shuffle w pickle_name train reduced_dataset classes
                 examples_per_class normalized_inputs) = Inl DataIntegrityError
          \<longleftrightarrow> be_uint (take 4 (drop 4 images)) \<noteq> be_uint (take 4 (drop 4 labels)))
       \<and> (be_uint (take 4 (drop 4 images)) \<noteq> be_uint (take 4 (drop 4 labels))
          \<longrightarrow> snd (get_labeled_data shuffle w pickle_name train reduced_dataset classes
                     examples_per_class normalized_inputs) = w)"
proof -
  let ?r = "get_labeled_data shuffle w pickle_name train reduced_dataset classes
              examples_per_class normalized_inputs"
  have iff: "fst ?r = Inl DataIntegrityError
      \<longleftrightarrow> be_uint (take 4 (drop 4 images)) \<noteq> be_uint (take 4 (drop 4 labels))"
    using images labels headers
    by (simp add: get_labeled_data_miss [OF miss] compute_data_integrity_iff
        load_mnist_integrity_iff)
  moreover have "snd ?r = w" if "fst ?r = Inl DataIntegrityError"
    using that by (rule get_labeled_data_error_world)
  ultimately show ?thesis by blast
qed

theorem count_mismatch_raises_witness:
  "pickles (fixture_world 2 1) (cache_name ''mnist'' False [] 100 False @ ''.pickle'') = None
   \<and> raw_files (fixture_world 2 1) (images_path True) = Some (fixture_images 2)
   \<and> raw_files (fixture_world 2 1) (labels_path True) = Some (fixture_labels 1)
   \<and> 16 \<le> length (fixture_images 2) \<and> 8 \<le> length (fixture_labels 1)
   \<and> be_uint (take 4 (drop 4 (fixture_images 2))) \<noteq> be_uint (take 4 (drop 4 (fixture_labels 1)))
   \<and> fst (get_labeled_data no_shuffle (fixture_world 2 1) ''mnist'' True False [] 100 False)
        = Inl DataIntegrityError
   \<and> snd (get_labeled_data no_shuffle (fixture_world 2 1) ''mnist'' True False [] 100 False)
        = fixture_world 2 1"
proof -
  have miss: "pickles (fixture_world 2 1) (cache_name ''mnist'' False [] 100 False @ ''.pickle'') = None"
    by (simp add: fixture_world_def)
  have len: "16 \<le> length (fixture_images 2)" "8 \<le> length (fixture_labels 1)"
    by (simp_all add: fixture_images_def fixture_labels_def)
  from count_mismatch_raises [OF miss fixture_files len, of no_shuffle]
    miss fixture_files [of 2 1] len fixture_counts
  show ?thesis by simp
qed

subsection \<open>Labels of the reduced dataset\<close>

lemma label_quotients_Inr:
  "label_quotients epc ls = Inr qs \<Longrightarrow> qs = map (\<lambda>label. label div epc) ls"
proof (induction ls arbitrary: qs)
  case Nil
  then show ?case by simp
next
  case (Cons l ls)
  then show ?case
    by (auto simp: bind_def py_floordiv_def split: sum.splits if_splits)
qed

lemma label_quotients_ok:
  "epc \<noteq> 0 \<Longrightarrow> label_quotients epc ls = Inr (map (\<lambda>label. label div epc) ls)"
  by (induction ls) (simp_all add: py_floordiv_def)

lemma synthesize_labels_Inr:
  assumes "synthesize_labels epc classes = Inr reduced_y"
  shows "reduced_y = map (\<lambda>label. word_of_int (label div epc)) [0 .. epc * int (length classes) - 1]"
proof -
  from assms obtain qs where
    "label_quotients epc [0 .. epc * int (length classes) - 1] = Inr qs"
    and "reduced_y = map word_of_int qs"
    by (auto simp: synthesize_labels_def bind_def split: sum.splits)
  moreover from this(1) have "qs = map (\<lambda>label. label div epc) [0 .. epc * int (length classes) - 1]"
    by (rule label_quotients_Inr)
  ultimately show ?thesis by simp
qed

lemma reduce_dataset_labels:
  assumes "reduce_dataset x y rows cols classes epc = Inr (reduced_x, reduced_y)"
  shows "reduced_y = map (\<lambda>label. word_of_int (label div epc)) [0 .. epc * int (length classes) - 1]"
    and "0 \<le> epc * int (length classes)"
  using assms synthesize_labels_Inr [of epc classes reduced_y]
  by (auto simp: reduce_dataset_def bind_def np_zeros_images_def split: sum.splits if_splits)

lemma scan_examples_ok:
  "0 \<le> current \<Longrightarrow> current < stop \<Longrightarrow> stop \<le> int (length reduced_x) \<Longrightarrow>
   \<exists>r. scan_examples class_index stop examples current reduced_x = Inr r \<and> length r = length reduced_x"
proof (induction examples arbitrary: current reduced_x)
  case Nil
  show ?case by simp
next
  case (Cons ex examples)
  obtain example label where ex: "ex = (example, label)" by (cases ex)
  show ?case
  proof (cases "uint label = class_index")
    case False
    with Cons ex show ?thesis by simp
  next
    case True
    let ?r = "reduced_x [nat current := example]"
    from Cons.prems have s: "set_image reduced_x current example = Inr ?r"
      by (simp add: set_image_def)
    show ?thesis
    proof (cases "current + 1 = stop")
      case stop: True
      with True s ex show ?thesis by simp
    next
      case False
      with Cons.prems have "0 \<le> current + 1" "current + 1 < stop" "stop \<le> int (length ?r)"
        by simp_all
      from Cons.IH [OF this] True s ex False show ?thesis by simp
    qed
  qed
qed

lemma fill_classes_ok:
  assumes "1 \<le> epc"
  shows "(\<And>idx c. (idx, c) \<in> set cs \<Longrightarrow> epc * (int idx + 1) \<le> int (length reduced_x)) \<Longrightarrow>
     \<exists>r. fill_classes epc examples cs reduced_x = Inr r \<and> length r = length reduced_x"
proof (induction cs arbitrary: reduced_x)
  case Nil
  show ?case by simp
next
  case (Cons c cs)
  obtain idx class_index where c: "c = (idx, class_index)" by (cases c)
  from Cons.prems [of idx class_index] c
  have le: "epc * (int idx + 1) \<le> int (length reduced_x)" by simp
  from assms have "0 \<le> epc * int idx" "epc * int idx < epc * (int idx + 1)"
    by (simp_all add: algebra_simps)
  from scan_examples_ok [OF this le] obtain r where
    r: "scan_examples class_index (epc * (int idx + 1)) examples (epc * int idx) reduced_x = Inr r"
      "length r = length reduced_x" by blast
  have "\<exists>r'. fill_classes epc examples cs r = Inr r' \<and> length r' = length r"
  proof (rule Cons.IH)
    fix idx' c' assume "(idx', c') \<in> set cs"
    with Cons.prems [of idx' c'] r(2) show "epc * (int idx' + 1) \<le> int (length r)" by simp
  qed
  with r c show ?case by auto
qed

lemma reduce_dataset_ok:
  assumes "1 \<le> epc"
  shows "\<exists>reduced_x reduced_y. reduce_dataset x y rows cols classes epc = Inr (reduced_x, reduced_y)"
proof -
  let ?n = "epc * int (length classes)"
  let ?z = "replicate (nat ?n) (replicate rows (replicate cols (0::byte)))"
  from assms have n: "0 \<le> ?n" by simp
  then have z: "np_zeros_images ?n rows cols = Inr ?z" by (simp add: np_zeros_images_def)
  have "\<exists>r. fill_classes epc (zip x y) (zip [0 ..< length classes] classes) ?z = Inr r
          \<and> length r = length ?z"
  proof (rule fill_classes_ok [OF assms])
    fix idx c assume "(idx, c) \<in> set (zip [0 ..< length classes] classes)"
    then have "idx < length classes" by (auto dest: set_zip_leftD)
    then have "int idx + 1 \<le> int (length classes)" by simp
    with assms have "epc * (int idx + 1) \<le> ?n" by (simp add: mult_left_mono)
    with n show "epc * (int idx + 1) \<le> int (length ?z)" by simp
  qed
  then obtain r where "fill_classes epc (zip x y) (zip [0 ..< length classes] classes) ?z = Inr r"
    by blast
  moreover from assms have "epc \<noteq> 0" by simp
  ultimately show ?thesis
    by (simp add: reduce_dataset_def z synthesize_labels_def label_quotients_ok)
qed

lemma fixture_reduced:
  "reduce_dataset [[[1, 2], [3, 4]], [[5, 6], [7, 8]]] [7, 3] 2 2 [3, 7] 1
     = Inr ([[[5, 6], [7, 8]], [[1, 2], [3, 4]]], [0, 1])"
  by code_simp

text \<open>
  C9, as stated: entry \<open>k\<close> of the synthesized label array equals
  \<^verbatim>\<open>floor(k / examples_per_class)\<close>. The array has dtype \<^verbatim>\<open>uint8\<close>: with 257 classes and one example
  per class, entry 256 is 0, not 256.
\<close>

theorem reduced_labels_wrap:
  "\<not> isl (reduce_dataset [[[1, 2], [3, 4]], [[5, 6], [7, 8]]] [7, 3] 2 2 [0 .. 256] 1)
   \<and> 256 < length (snd (projr (reduce_dataset [[[1, 2], [3, 4]], [[5, 6], [7, 8]]] [7, 3] 2 2 [0 .. 256] 1)))
   \<and> uint (snd (projr (reduce_dataset [[[1, 2], [3, 4]], [[5, 6], [7, 8]]] [7, 3] 2 2 [0 .. 256] 1)) ! 256)
       \<noteq> 256 div 1"
proof -
  let ?R = "reduce_dataset [[[1, 2], [3, 4]], [[5, 6], [7, 8]]] [7, 3] 2 2 [0 .. 256] 1"
  have "(1::int) \<le> 1" by simp
  from reduce_dataset_ok [OF this] obtain reduced_x reduced_y
    where R: "?R = Inr (reduced_x, reduced_y)" by blast
  from reduce_dataset_labels(1) [OF R]
  have y: "reduced_y = map (\<lambda>label. word_of_int (label div 1)) [0 .. 256]" by simp
  then have "length reduced_y = 257" by simp
  moreover have "[0 .. 256] ! 256 = (256::int)" by simp
  with y have "reduced_y ! 256 = (word_of_int 256 :: byte)" by simp
  then have "uint (reduced_y ! 256) = 0" by simp
  ultimately show ?thesis using R by simp
qed

text \<open>
  C9, amended: before the shuffling, the synthesized label array has length
  \<^verbatim>\<open>examples_per_class * len(classes)\<close> and its entry at every position \<open>k\<close> is
  \<^verbatim>\<open>floor(k / examples_per_class)\<close> modulo 256, which is \<^verbatim>\<open>floor(k / examples_per_class)\<close> itself
  when there are at most 256 classes; the class ids in \<^verbatim>\<open>classes\<close> play no part.
\<close>

theorem reduced_labels_by_position:
  assumes "reduce_dataset x y rows cols classes examples_per_class = Inr (reduced_x, reduced_y)"
  shows "int (length reduced_y) = examples_per_class * int (length classes)
       \<and> (\<forall>k < length reduced_y.
             uint (reduced_y ! k) = (int k div examples_per_class) mod 256
           \<and> (length classes \<le> 256 \<longrightarrow> uint (reduced_y ! k) = int k div examples_per_class))"
proof -
  let ?n = "examples_per_class * int (length classes)"
  note l = reduce_dataset_labels [OF assms]
  from l have len: "int (length reduced_y) = ?n" by simp
  have "uint (reduced_y ! k) = (int k div examples_per_class) mod 256
      \<and> (length classes \<le> 256 \<longrightarrow> uint (reduced_y ! k) = int k div examples_per_class)"
    if k: "k < length reduced_y" for k
  proof -
    from k len have kn: "int k < ?n" by simp
    then have "[0 .. ?n - 1] ! k = int k" by simp
    with k l(1) have v: "reduced_y ! k = word_of_int (int k div examples_per_class)" by simp
    then have m: "uint (reduced_y ! k) = (int k div examples_per_class) mod 256"
      by (simp add: uint_word_of_int)
    have "int k div examples_per_class = (int k div examples_per_class) mod 256"
      if c: "length classes \<le> 256"
    proof -
      from kn have pos: "0 < examples_per_class"
        by (smt (verit) mult_nonneg_nonpos2 of_nat_0_le_iff mult_zero_left)
      then have "0 \<le> int k div examples_per_class" by (simp add: pos_imp_zdiv_nonneg_iff)
      moreover have "int k div examples_per_class < int (length classes)"
      proof -
        have "examples_per_class * (int k div examples_per_class) + int k mod examples_per_class
            = int k" by (rule mult_div_mod_eq)
        moreover from pos have "0 \<le> int k mod examples_per_class" by simp
        ultimately have "examples_per_class * (int k div examples_per_class) \<le> int k"
          by linarith
        with kn have "examples_per_class * (int k div examples_per_class)
            < examples_per_class * int (length classes)" by simp
        with pos show ?thesis by (simp add: mult_less_cancel_left_pos)
      qed
      ultimately show ?thesis using c by simp
    qed
    with m show ?thesis by simp
  qed
  with len show ?thesis by blast
qed

theorem reduced_labels_by_position_witness:
  "reduce_dataset [[[1, 2], [3, 4]], [[5, 6], [7, 8]]] [7, 3] 2 2 [3, 7] 1
     = Inr ([[[5, 6], [7, 8]], [[1, 2], [3, 4]]], [0, 1])
   \<and> int (length [0, 1 :: byte]) = 1 * int (length [3, 7 :: int])
   \<and> (1::nat) < length [0, 1 :: byte]
   \<and> uint ([0, 1 :: byte] ! 1) = int 1 div 1"
proof -
  have k: "(1::nat) < length [0, 1 :: byte]" by simp
  from reduced_labels_by_position [OF fixture_reduced] k fixture_reduced
  show ?thesis by simp
qed


end
